theory Spec2Isabelle
  imports Main
begin

section \<open>Errors\<close>

text \<open>
  The sentinel errors of the package, the redis.Nil reply of the remote-store
  client, error values produced by libraries outside the repository (encoding/base64,
  encoding/json, crypto/rand, a failed connection of the redis client), and the wrapping
  done by \<^verbatim>\<open>fmt.Errorf("...: %w", err)\<close>.
\<close>

datatype error =
    ErrSessionNotFound
  | ErrStoreNotFound
  | ErrInvalidSessionData
  | ErrEncryptionFailed
  | ErrSignatureInvalid
  | ErrSessionExpired
  | ErrInvalidConfiguration
  | RedisNil
  | External string
  | Errorf string error

text \<open>\<^verbatim>\<open>errors.Is\<close>: the target is looked for along the chain of wrapped errors.\<close>

fun errors_Is :: "error \<Rightarrow> error \<Rightarrow> bool" where
  "errors_Is (Errorf m e) t = (Errorf m e = t \<or> errors_Is e t)"
| "errors_Is e t = (e = t)"

section \<open>Session (session.go)\<close>

text \<open>
  A Go \<^verbatim>\<open>interface{}\<close> value is an option: \<open>None\<close> is the nil interface. A Go
  map is an option of a partial function: \<open>None\<close> is the nil map, which was never
  allocated. Times are nanoseconds on one time axis, the zero \<^verbatim>\<open>time.Time\<close> being 0.
  The mutex of the struct holds no data; every method is modelled as it runs under it.
\<close>

type_synonym 'v iface = "'v option"

type_synonym 'v gomap = "(string \<rightharpoonup> 'v iface) option"

record 'v Session =
  id_s :: string
  name :: string
  values_s :: "'v gomap"
  isNew :: bool
  createdAt :: int
  updatedAt :: int
  expiresAt :: int

datatype panic = Panic string

text \<open>
  The three map primitives of the Go runtime: assigning to an entry of a nil map panics;
  reading a nil map gives the zero value (here the nil interface, as for a missing key);
  deleting from a nil map does nothing.
\<close>

definition mapassign :: "'v gomap \<Rightarrow> string \<Rightarrow> 'v iface \<Rightarrow> panic + 'v gomap" where
  "mapassign m k v =
     (case m of
        None \<Rightarrow> Inl (Panic ''assignment to entry in nil map'')
      | Some f \<Rightarrow> Inr (Some (f(k \<mapsto> v))))"

definition mapaccess :: "'v gomap \<Rightarrow> string \<Rightarrow> panic + 'v iface" where
  "mapaccess m k =
     (case m of
        None \<Rightarrow> Inr None
      | Some f \<Rightarrow> (case f k of None \<Rightarrow> Inr None | Some v \<Rightarrow> Inr v))"

definition mapdelete :: "'v gomap \<Rightarrow> string \<Rightarrow> panic + 'v gomap" where
  "mapdelete m k =
     (case m of
        None \<Rightarrow> Inr None
      | Some f \<Rightarrow> Inr (Some (f(k := None))))"

definition make_map :: "'v gomap" where
  "make_map = Some Map.empty"

text \<open>\<^verbatim>\<open>time.Time.Add\<close>.\<close>

definition time_Add :: "int \<Rightarrow> int \<Rightarrow> int" where
  "time_Add t d = t + d"

definition NewSession :: "string \<Rightarrow> int \<Rightarrow> int \<Rightarrow> 'v Session" where
  "NewSession ident maxAge now =
     \<lparr> id_s = ident, name = [], values_s = make_map, isNew = True,
       createdAt = now, updatedAt = now, expiresAt = time_Add now maxAge \<rparr>"

definition Session_Set :: "'v Session \<Rightarrow> string \<Rightarrow> 'v iface \<Rightarrow> int \<Rightarrow> panic + 'v Session" where
  "Session_Set s key val now =
     (let s1 = (if values_s s = None then s\<lparr>values_s := make_map\<rparr> else s)
      in case mapassign (values_s s1) key val of
           Inl p \<Rightarrow> Inl p
         | Inr m \<Rightarrow> Inr (s1\<lparr>values_s := m, updatedAt := now\<rparr>))"

definition Session_Get :: "'v Session \<Rightarrow> string \<Rightarrow> panic + 'v iface" where
  "Session_Get s key = mapaccess (values_s s) key"

definition Session_Delete :: "'v Session \<Rightarrow> string \<Rightarrow> int \<Rightarrow> panic + 'v Session" where
  "Session_Delete s key now =
     (case mapdelete (values_s s) key of
        Inl p \<Rightarrow> Inl p
      | Inr m \<Rightarrow> Inr (s\<lparr>values_s := m, updatedAt := now\<rparr>))"

definition Session_Refresh :: "'v Session \<Rightarrow> int \<Rightarrow> int \<Rightarrow> 'v Session" where
  "Session_Refresh s maxAge now = s\<lparr>expiresAt := time_Add now maxAge, updatedAt := now\<rparr>"

definition Session_Extend :: "'v Session \<Rightarrow> int \<Rightarrow> int \<Rightarrow> 'v Session" where
  "Session_Extend s delta now = s\<lparr>expiresAt := time_Add (expiresAt s) delta, updatedAt := now\<rparr>"

definition setName :: "'v Session \<Rightarrow> string \<Rightarrow> 'v Session" where
  "setName s n = s\<lparr>name := n\<rparr>"

definition setIsNew :: "'v Session \<Rightarrow> bool \<Rightarrow> 'v Session" where
  "setIsNew s v = s\<lparr>isNew := v\<rparr>"

definition setID :: "'v Session \<Rightarrow> string \<Rightarrow> 'v Session" where
  "setID s i = s\<lparr>id_s := i\<rparr>"

text \<open>The zero value of the struct (\<^verbatim>\<open>var session Session\<close>).\<close>

definition zero_Session :: "'v Session" where
  "zero_Session =
     \<lparr> id_s = [], name = [], values_s = None, isNew = False,
       createdAt = 0, updatedAt = 0, expiresAt = 0 \<rparr>"

section \<open>The JSON form of a session (session.go)\<close>

record 'v sessionDTO =
  ID :: string
  Name :: string
  Values :: "'v gomap"
  CreatedAt :: int
  UpdatedAt :: int
  ExpiresAt :: int

text \<open>
  What the code takes from outside the repository: HMAC-SHA256, the standard and the raw
  URL base64 alphabets, and encoding/json on the transfer struct. A decoder that rejects
  its input returns \<open>None\<close>; so does the encoder on a value it cannot encode.
\<close>

record 'v extern =
  hmac_sha256 :: "string \<Rightarrow> string \<Rightarrow> string"
  base64_StdEncode :: "string \<Rightarrow> string"
  base64_StdDecode :: "string \<Rightarrow> string option"
  base64_RawURLEncode :: "string \<Rightarrow> string"
  json_Marshal :: "'v sessionDTO \<Rightarrow> string option"
  json_Unmarshal :: "string \<Rightarrow> 'v sessionDTO option"

definition toDTO :: "'v Session \<Rightarrow> 'v sessionDTO" where
  "toDTO s =
     \<lparr> ID = id_s s, Name = name s, Values = values_s s,
       CreatedAt = createdAt s, UpdatedAt = updatedAt s, ExpiresAt = expiresAt s \<rparr>"

definition MarshalJSON :: "'v extern \<Rightarrow> 'v Session \<Rightarrow> error + string" where
  "MarshalJSON X s =
     (case json_Marshal X (toDTO s) of
        None \<Rightarrow> Inl (External ''json'')
      | Some b \<Rightarrow> Inr b)"

definition UnmarshalJSON :: "'v extern \<Rightarrow> 'v Session \<Rightarrow> string \<Rightarrow> error + 'v Session" where
  "UnmarshalJSON X s b =
     (case json_Unmarshal X b of
        None \<Rightarrow> Inl (External ''json'')
      | Some dto \<Rightarrow>
          Inr (s\<lparr> id_s := ID dto, name := Name dto,
                 values_s := (if Values dto = None then make_map else Values dto),
                 createdAt := CreatedAt dto, updatedAt := UpdatedAt dto,
                 expiresAt := ExpiresAt dto, isNew := False \<rparr>))"

section \<open>Crypto (cipher.go)\<close>

text \<open>
  A \<^verbatim>\<open>cipher.AEAD\<close> with its key inside: the nonce size, the overhead, and the two
  transformations on (nonce, text, additional data). \<open>Seal\<close> and \<open>Open\<close> append
  their output to \<open>dst\<close>, as the interface says.
\<close>

record AEAD =
  NonceSize :: nat
  Overhead :: nat
  sealed :: "string \<Rightarrow> string \<Rightarrow> string \<Rightarrow> string"
  opened :: "string \<Rightarrow> string \<Rightarrow> string \<Rightarrow> string option"

definition Seal :: "AEAD \<Rightarrow> string \<Rightarrow> string \<Rightarrow> string \<Rightarrow> string \<Rightarrow> string" where
  "Seal a dst nonce plaintext additionalData = dst @ sealed a nonce plaintext additionalData"

definition Open :: "AEAD \<Rightarrow> string \<Rightarrow> string \<Rightarrow> string \<Rightarrow> string \<Rightarrow> string option" where
  "Open a dst nonce ciphertext additionalData =
     (case opened a nonce ciphertext additionalData of
        None \<Rightarrow> None
      | Some p \<Rightarrow> Some (dst @ p))"

record Crypto =
  aead :: AEAD
  signingKey :: "string option"

text \<open>
  The random source holds the bytes it will still deliver. \<^verbatim>\<open>rand.Read\<close> and
  \<^verbatim>\<open>io.ReadFull(rand.Reader, b)\<close> fill the whole buffer or fail.
\<close>

definition rand_Read :: "nat \<Rightarrow> string \<Rightarrow> string option \<times> string" where
  "rand_Read n ent = (if length ent < n then (None, ent) else (Some (take n ent), drop n ent))"

definition GenerateSessionID :: "'v extern \<Rightarrow> string \<Rightarrow> (error + string) \<times> string" where
  "GenerateSessionID X ent =
     (case rand_Read 32 ent of
        (None, ent') \<Rightarrow> (Inl (Errorf ''failed to generate session ID'' (External ''rand'')), ent')
      | (Some bytes, ent') \<Rightarrow> (Inr (base64_RawURLEncode X bytes), ent'))"

definition sign :: "'v extern \<Rightarrow> Crypto \<Rightarrow> string \<Rightarrow> string" where
  "sign X c data = hmac_sha256 X (case signingKey c of None \<Rightarrow> [] | Some k \<Rightarrow> k) data"

text \<open>
  \<^verbatim>\<open>subtle.ConstantTimeCompare\<close>: 1 when the two slices have equal contents, 0
  otherwise (and 0 at once when the lengths differ). Only its result is modelled.
\<close>

definition ConstantTimeCompare :: "string \<Rightarrow> string \<Rightarrow> int" where
  "ConstantTimeCompare x y = (if length x \<noteq> length y then 0 else if x = y then 1 else 0)"

definition verify :: "'v extern \<Rightarrow> Crypto \<Rightarrow> string \<Rightarrow> string \<Rightarrow> bool" where
  "verify X c data signature =
     (let expected = sign X c data in ConstantTimeCompare signature expected = 1)"

definition EncryptAndSign ::
  "'v extern \<Rightarrow> Crypto \<Rightarrow> 'v Session \<Rightarrow> string \<Rightarrow> string \<Rightarrow> (error + string) \<times> string" where
  "EncryptAndSign X c data aad ent =
     (case MarshalJSON X data of
        Inl err \<Rightarrow> (Inl (Errorf ''failed to marshal data'' err), ent)
      | Inr jsonData \<Rightarrow>
          (case rand_Read (NonceSize (aead c)) ent of
             (None, ent') \<Rightarrow> (Inl (Errorf ''failed to generate nonce'' (External ''rand'')), ent')
           | (Some nonce, ent') \<Rightarrow>
               (let ciphertext = Seal (aead c) nonce nonce jsonData aad
                in if signingKey c \<noteq> None
                   then (let signature = sign X c ciphertext;
                             combined = signature @ ciphertext
                         in (Inr (base64_StdEncode X combined), ent'))
                   else (Inr (base64_StdEncode X ciphertext), ent'))))"

text \<open>
  What \<open>DecryptAndVerify\<close> returns comes with the calls it made to \<open>Open\<close> of the
  AEAD, as (nonce, ciphertext, additional data), in order.
\<close>

type_synonym open_call = "string \<times> string \<times> string"

text \<open>Lines 114 to 123 of cipher.go: both branches of the length check continue here.\<close>

definition open_payload ::
  "'v extern \<Rightarrow> Crypto \<Rightarrow> string \<Rightarrow> 'v Session \<Rightarrow> string \<Rightarrow> open_call list \<times> (error + 'v Session)" where
  "open_payload X c decoded dest aad =
     (let nonceSize = NonceSize (aead c);
          nonce = take nonceSize decoded;
          ciphertext = drop nonceSize decoded
      in case Open (aead c) [] nonce ciphertext aad of
           None \<Rightarrow> ([(nonce, ciphertext, aad)], Inl ErrEncryptionFailed)
         | Some plaintext \<Rightarrow>
             (case UnmarshalJSON X dest plaintext of
                Inl err \<Rightarrow> ([(nonce, ciphertext, aad)], Inl (Errorf ''failed to unmarshal data'' err))
              | Inr s \<Rightarrow> ([(nonce, ciphertext, aad)], Inr s)))"

definition DecryptAndVerify ::
  "'v extern \<Rightarrow> Crypto \<Rightarrow> string \<Rightarrow> 'v Session \<Rightarrow> string \<Rightarrow> open_call list \<times> (error + 'v Session)" where
  "DecryptAndVerify X c encryptedData dest aad =
     (case base64_StdDecode X encryptedData of
        None \<Rightarrow> ([], Inl (Errorf ''failed to decode base64'' (External ''base64'')))
      | Some decoded \<Rightarrow>
          (let nonceSize = NonceSize (aead c);
               overhead = Overhead (aead c)
           in if signingKey c \<noteq> None
              then (let minLength = 32 + nonceSize + overhead + 1
                    in if length decoded < minLength then ([], Inl ErrInvalidSessionData)
                       else (let signature = take 32 decoded;
                                 ciphertext = drop 32 decoded
                             in if \<not> verify X c ciphertext signature
                                then ([], Inl ErrSignatureInvalid)
                                else open_payload X c ciphertext dest aad))
              else (let minLength = nonceSize + overhead + 1
                    in if length decoded < minLength then ([], Inl ErrInvalidSessionData)
                       else open_payload X c decoded dest aad)))"

section \<open>Durations (package time)\<close>

text \<open>
  A \<^verbatim>\<open>time.Duration\<close> is a signed 64-bit count of nanoseconds.
  \<^verbatim>\<open>Time.Sub\<close> saturates at the two ends of that range; the product of two
  durations wraps around.
\<close>

definition minDuration :: int where
  "minDuration = - (2 ^ 63)"

definition maxDuration :: int where
  "maxDuration = 2 ^ 63 - 1"

definition Second :: int where
  "Second = 1000000000"

definition time_Sub :: "int \<Rightarrow> int \<Rightarrow> int" where
  "time_Sub t u =
     (if t - u < minDuration then minDuration
      else if maxDuration < t - u then maxDuration
      else t - u)"

definition time_Until :: "int \<Rightarrow> int \<Rightarrow> int" where
  "time_Until now t = time_Sub t now"

definition time_After :: "int \<Rightarrow> int \<Rightarrow> bool" where
  "time_After t u = (u < t)"

definition wrap64 :: "int \<Rightarrow> int" where
  "wrap64 x = (x + 2 ^ 63) mod 2 ^ 64 - 2 ^ 63"

section \<open>Cookies\<close>

record CookieOptions =
  opt_Path :: string
  opt_Domain :: string
  opt_MaxAge :: int
  opt_Secure :: bool
  opt_HttpOnly :: bool
  opt_Partitioned :: bool
  opt_SameSite :: int

text \<open>
  Of a cookie the name, the value, the expiry time and the attribute policy are kept. Its
  \<^verbatim>\<open>MaxAge\<close> goes through floating-point seconds in the source and is left out.
\<close>

record Cookie =
  cookie_Name :: string
  cookie_Value :: string
  cookie_Expires :: int
  cookie_Policy :: CookieOptions

definition NewCookie :: "CookieOptions \<Rightarrow> 'v Session \<Rightarrow> Cookie" where
  "NewCookie opts session =
     \<lparr> cookie_Name = name session, cookie_Value = id_s session,
       cookie_Expires = expiresAt session, cookie_Policy = opts \<rparr>"

text \<open>\<^verbatim>\<open>time.Unix(0, 0)\<close>: 1 January 1970, counted from the zero time.\<close>

definition unix_epoch :: int where
  "unix_epoch = 62135596800 * 1000000000"

definition RemoveCookie :: "CookieOptions \<Rightarrow> string \<Rightarrow> Cookie" where
  "RemoveCookie opts n =
     \<lparr> cookie_Name = n, cookie_Value = [], cookie_Expires = unix_epoch, cookie_Policy = opts \<rparr>"

section \<open>The world outside the process\<close>

text \<open>
  The remote store maps a key to the text stored under it and the expiry it was stored
  with. Every command sent to it first takes the next entry of \<open>faults\<close>: \<open>Some e\<close>
  means the command fails with the connection error \<open>e\<close> before it reaches the store;
  \<open>None\<close>, or an empty list, means the store answers. A reply that is lost after the
  store has applied the command is not part of the model, so nothing below is concluded
  about the store's entries from a failed command. An entry stays until it is overwritten or
  deleted: the store's own eviction of entries past their expiry is not part of the model.
  The world also holds the bytes the random source will deliver and the cookies written
  to the response so far.
\<close>

record world =
  kv :: "string \<rightharpoonup> string \<times> int"
  faults :: "string option list"
  entropy :: string
  cookies :: "Cookie list"

definition next_fault :: "world \<Rightarrow> string option \<times> world" where
  "next_fault w =
     (case faults w of
        [] \<Rightarrow> (None, w)
      | f # fs \<Rightarrow> (f, w\<lparr>faults := fs\<rparr>))"

definition redis_Get :: "string \<Rightarrow> world \<Rightarrow> (error + string) \<times> world" where
  "redis_Get key w =
     (case next_fault w of
        (Some e, w') \<Rightarrow> (Inl (External e), w')
      | (None, w') \<Rightarrow>
          (case kv w' key of
             None \<Rightarrow> (Inl RedisNil, w')
           | Some (v, ttl) \<Rightarrow> (Inr v, w')))"

definition redis_Set :: "string \<Rightarrow> string \<Rightarrow> int \<Rightarrow> world \<Rightarrow> (error + unit) \<times> world" where
  "redis_Set key v ttl w =
     (case next_fault w of
        (Some e, w') \<Rightarrow> (Inl (External e), w')
      | (None, w') \<Rightarrow> (Inr (), w'\<lparr>kv := (kv w')(key \<mapsto> (v, ttl))\<rparr>))"

definition redis_Del :: "string \<Rightarrow> world \<Rightarrow> (error + unit) \<times> world" where
  "redis_Del key w =
     (case next_fault w of
        (Some e, w') \<Rightarrow> (Inl (External e), w')
      | (None, w') \<Rightarrow> (Inr (), w'\<lparr>kv := (kv w')(key := None)\<rparr>))"

text \<open>
  A transaction pipeline (MULTI ... EXEC): the queued commands take effect together, in
  order, or not at all.
\<close>

datatype cmd = CmdSet string string int | CmdDel string

fun apply_cmd :: "cmd \<Rightarrow> (string \<rightharpoonup> string \<times> int) \<Rightarrow> (string \<rightharpoonup> string \<times> int)" where
  "apply_cmd (CmdSet key v ttl) m = m(key \<mapsto> (v, ttl))"
| "apply_cmd (CmdDel key) m = m(key := None)"

definition pipe_Exec :: "cmd list \<Rightarrow> world \<Rightarrow> (error + unit) \<times> world" where
  "pipe_Exec cmds w =
     (case next_fault w of
        (Some e, w') \<Rightarrow> (Inl (External e), w')
      | (None, w') \<Rightarrow> (Inr (), w'\<lparr>kv := fold apply_cmd cmds (kv w')\<rparr>))"

definition SetCookie :: "Cookie \<Rightarrow> world \<Rightarrow> world" where
  "SetCookie c w = w\<lparr>cookies := cookies w @ [c]\<rparr>"

section \<open>RedisStore\<close>

text \<open>
  The client of the store is the remote part of the world. A request is the cookies it
  carries, by name; \<^verbatim>\<open>r.Cookie(name)\<close> fails when there is none. The clock is read as
  \<open>now\<close>, one reading for one call.
\<close>

record RedisStore =
  prefix :: string
  crypto :: Crypto
  options :: CookieOptions

type_synonym request = "string \<rightharpoonup> string"

definition redisKey :: "RedisStore \<Rightarrow> string \<Rightarrow> string \<Rightarrow> string" where
  "redisKey s n sessionID = prefix s @ n @ '':'' @ sessionID"

definition load ::
  "'v extern \<Rightarrow> RedisStore \<Rightarrow> int \<Rightarrow> string \<Rightarrow> string \<Rightarrow> world \<Rightarrow> (error + 'v Session) \<times> world" where
  "load X s now n sessionID w =
     (let key = redisKey s n sessionID
      in case redis_Get key w of
           (Inl err, w1) \<Rightarrow>
             (if errors_Is err RedisNil then (Inl ErrSessionNotFound, w1) else (Inl err, w1))
         | (Inr encrypted, w1) \<Rightarrow>
             (case snd (DecryptAndVerify X (crypto s) encrypted zero_Session n) of
                Inl err \<Rightarrow> (Inl err, w1)
              | Inr session \<Rightarrow>
                  (if time_After now (expiresAt session)
                   then (Inl ErrSessionExpired, snd (redis_Del key w1))
                   else (Inr session, w1))))"

definition RedisStore_New ::
  "'v extern \<Rightarrow> RedisStore \<Rightarrow> int \<Rightarrow> request \<Rightarrow> string \<Rightarrow> world \<Rightarrow> (error + 'v Session) \<times> world" where
  "RedisStore_New X s now r n w =
     (let (session, w1) =
            (case r n of
               None \<Rightarrow> (None, w)
             | Some cookie_value \<Rightarrow>
                 (case load X s now n cookie_value w of
                    (Inl err, w') \<Rightarrow> (None, w')
                  | (Inr loaded, w') \<Rightarrow> (Some (setIsNew loaded False), w')))
      in case session of
           Some session' \<Rightarrow> (Inr (setName session' n), w1)
         | None \<Rightarrow>
             (case GenerateSessionID X (entropy w1) of
                (Inl err, ent') \<Rightarrow> (Inl err, w1\<lparr>entropy := ent'\<rparr>)
              | (Inr ident, ent') \<Rightarrow>
                  (Inr (setName
                          (setIsNew (NewSession ident (wrap64 (opt_MaxAge (options s) * Second)) now) True)
                          n),
                   w1\<lparr>entropy := ent'\<rparr>)))"

definition RedisStore_Get ::
  "'v extern \<Rightarrow> RedisStore \<Rightarrow> int \<Rightarrow> request \<Rightarrow> string \<Rightarrow> world \<Rightarrow> (error + 'v Session) \<times> world" where
  "RedisStore_Get X s now r n w = RedisStore_New X s now r n w"

definition RedisStore_Save ::
  "'v extern \<Rightarrow> RedisStore \<Rightarrow> int \<Rightarrow> 'v Session \<Rightarrow> world \<Rightarrow> (error + unit) \<times> world" where
  "RedisStore_Save X s now session w =
     (let key = redisKey s (name session) (id_s session);
          ttl = time_Until now (expiresAt session)
      in if ttl \<le> 0 then (Inl ErrSessionExpired, w)
         else
           (case EncryptAndSign X (crypto s) session (name session) (entropy w) of
              (Inl err, ent') \<Rightarrow> (Inl err, w\<lparr>entropy := ent'\<rparr>)
            | (Inr encrypted, ent') \<Rightarrow>
                (case redis_Set key encrypted ttl (w\<lparr>entropy := ent'\<rparr>) of
                   (Inl err, w') \<Rightarrow> (Inl err, w')
                 | (Inr u, w') \<Rightarrow> (Inr (), SetCookie (NewCookie (options s) session) w'))))"

text \<open>
  \<open>RotateID\<close> changes the session it is given: the session comes back with the result.
\<close>

definition RedisStore_RotateID ::
  "'v extern \<Rightarrow> RedisStore \<Rightarrow> int \<Rightarrow> 'v Session \<Rightarrow> world \<Rightarrow> (error + unit) \<times> 'v Session \<times> world" where
  "RedisStore_RotateID X s now session w =
     (let oldID = id_s session;
          oldKey = redisKey s (name session) oldID
      in case GenerateSessionID X (entropy w) of
           (Inl err, ent1) \<Rightarrow> (Inl err, session, w\<lparr>entropy := ent1\<rparr>)
         | (Inr newID, ent1) \<Rightarrow>
             (let session1 = setID session newID;
                  newKey = redisKey s (name session1) newID;
                  ttl0 = time_Until now (expiresAt session1);
                  ttl = (if ttl0 \<le> 0 then Second else ttl0)
              in case EncryptAndSign X (crypto s) session1 (name session1) ent1 of
                   (Inl err, ent2) \<Rightarrow> (Inl err, session1, w\<lparr>entropy := ent2\<rparr>)
                 | (Inr encrypted, ent2) \<Rightarrow>
                     (case pipe_Exec [CmdSet newKey encrypted ttl, CmdDel oldKey] (w\<lparr>entropy := ent2\<rparr>) of
                        (Inl err, w') \<Rightarrow> (Inl err, session1, w')
                      | (Inr u, w') \<Rightarrow>
                          (Inr (), session1, SetCookie (NewCookie (options s) session1) w'))))"

definition RedisStore_Destroy ::
  "RedisStore \<Rightarrow> 'v Session \<Rightarrow> world \<Rightarrow> (error + unit) \<times> world" where
  "RedisStore_Destroy s session w =
     (let key = redisKey s (name session) (id_s session)
      in case redis_Del key w of
           (Inl err, w') \<Rightarrow> (Inl err, w')
         | (Inr u, w') \<Rightarrow> (Inr (), SetCookie (RemoveCookie (options s) (name session)) w'))"

text \<open>
  The bytes \<open>EncryptAndSign\<close> hands to the text encoder, for a given nonce and a given
  serialized value: the signature (when a key is configured), the nonce, the sealed text.
\<close>

definition envelope :: "'v extern \<Rightarrow> Crypto \<Rightarrow> string \<Rightarrow> string \<Rightarrow> string \<Rightarrow> string" where
  "envelope X c nonce plaintext aad =
     (let ciphertext = nonce @ sealed (aead c) nonce plaintext aad
      in if signingKey c \<noteq> None then sign X c ciphertext @ ciphertext else ciphertext)"

section \<open>What the collaborators are relied on for\<close>

text \<open>
  The AEAD opens what it sealed, under the same nonce and additional data, and a sealed
  text is longer than its plaintext by the overhead.
\<close>

definition aead_contract :: "AEAD \<Rightarrow> bool" where
  "aead_contract a =
     (\<forall>n p ad. length n = NonceSize a \<longrightarrow>
        opened a n (sealed a n p ad) ad = Some p \<and>
        length (sealed a n p ad) = length p + Overhead a)"

text \<open>
  The AEAD authenticates the additional data of a text sealed under \<open>A\<close> against \<open>B\<close>:
  it opens no such text under \<open>B\<close>.
\<close>

definition aead_rejects :: "AEAD \<Rightarrow> string \<Rightarrow> string \<Rightarrow> bool" where
  "aead_rejects a A B = (\<forall>n p. opened a n (sealed a n p A) B = None)"

definition base64_contract :: "'v extern \<Rightarrow> bool" where
  "base64_contract X = (\<forall>b. base64_StdDecode X (base64_StdEncode X b) = Some b)"

definition hmac_contract :: "'v extern \<Rightarrow> bool" where
  "hmac_contract X = (\<forall>k d. length (hmac_sha256 X k d) = 32)"

text \<open>The encoder encodes \<open>d\<close>, to at least one byte, and the decoder reads \<open>d\<close> back.\<close>

definition json_contract :: "'v extern \<Rightarrow> 'v sessionDTO \<Rightarrow> bool" where
  "json_contract X d = (\<exists>b. json_Marshal X d = Some b \<and> b \<noteq> [] \<and> json_Unmarshal X b = Some d)"

section \<open>A small instance of the collaborators\<close>

text \<open>
  Concrete runs need concrete collaborators. The cipher below has a two-byte nonce and a
  one-byte tag taken from the additional data; the signature is 32 bytes cut from key and
  data; the text encoding puts one marker byte in front; the JSON codec writes the
  identifier of a session between braces and knows the other fields of one session.
  None of them is secure; each keeps the contract above.
\<close>

definition demo_tag :: "string \<Rightarrow> char" where
  "demo_tag ad = (case ad of [] \<Rightarrow> CHR ''#'' | x # xs \<Rightarrow> x)"

definition demo_aead :: AEAD where
  "demo_aead =
     \<lparr> NonceSize = 2, Overhead = 1,
       sealed = (\<lambda>n p ad. p @ [demo_tag ad]),
       opened = (\<lambda>n c ad. if c \<noteq> [] \<and> last c = demo_tag ad then Some (butlast c) else None) \<rparr>"

definition demo_session :: "string Session" where
  "demo_session =
     \<lparr> id_s = ''sid0'', name = ''app'', values_s = Some [''user'' \<mapsto> Some ''alice''],
       isNew = True, createdAt = 100, updatedAt = 100, expiresAt = 5000 \<rparr>"

definition demo_unmarshal :: "string \<Rightarrow> string sessionDTO option" where
  "demo_unmarshal b =
     (if 2 \<le> length b \<and> hd b = CHR ''{'' \<and> last b = CHR ''}''
      then Some ((toDTO demo_session)\<lparr>ID := butlast (tl b)\<rparr>)
      else None)"

definition demo_extern :: "string extern" where
  "demo_extern =
     \<lparr> hmac_sha256 = (\<lambda>k d. take 32 (k @ d @ ''00000000000000000000000000000000'')),
       base64_StdEncode = (\<lambda>b. CHR ''='' # b),
       base64_StdDecode = (\<lambda>t. case t of [] \<Rightarrow> None | x # xs \<Rightarrow> if x = CHR ''='' then Some xs else None),
       base64_RawURLEncode = (\<lambda>b. b),
       json_Marshal = (\<lambda>d. Some (''{'' @ ID d @ ''}'')),
       json_Unmarshal = demo_unmarshal \<rparr>"

definition demo_crypto :: Crypto where
  "demo_crypto = \<lparr> aead = demo_aead, signingKey = Some ''key'' \<rparr>"

definition demo_crypto_unsigned :: Crypto where
  "demo_crypto_unsigned = \<lparr> aead = demo_aead, signingKey = None \<rparr>"

definition demo_options :: CookieOptions where
  "demo_options =
     \<lparr> opt_Path = ''/'', opt_Domain = [], opt_MaxAge = 10, opt_Secure = True,
       opt_HttpOnly = True, opt_Partitioned = False, opt_SameSite = 3 \<rparr>"

definition demo_store :: RedisStore where
  "demo_store = \<lparr> prefix = ''test:'', crypto = demo_crypto, options = demo_options \<rparr>"

definition demo_world :: world where
  "demo_world =
     \<lparr> kv = Map.empty, faults = [],
       entropy = ''abcdefghijklmnopqrstuvwxyzABCDEFGHIJKLMNOPQRSTUVWXYZ'', cookies = [] \<rparr>"

text \<open>
  Three more worlds: one whose store refuses the next command, one whose store holds an
  envelope of the session above under its key, and one whose random source runs dry
  after one identifier.
\<close>

definition refused_world :: world where
  "refused_world = demo_world\<lparr>faults := [Some ''connection refused'']\<rparr>"

definition stale_world :: world where
  "stale_world =
     demo_world\<lparr>kv := [''test:app:sid0'' \<mapsto> (''=keyxy{sid0}a00000000000000000000xy{sid0}a'', 4900)]\<rparr>"


section \<open>The small instance keeps the contracts\<close>

lemmas demo_defs = demo_extern_def demo_crypto_def demo_crypto_unsigned_def demo_aead_def
  demo_session_def demo_unmarshal_def demo_tag_def demo_store_def demo_options_def demo_world_def

lemmas cipher_defs = EncryptAndSign_def DecryptAndVerify_def open_payload_def MarshalJSON_def
  UnmarshalJSON_def toDTO_def rand_Read_def Seal_def Open_def sign_def verify_def
  ConstantTimeCompare_def make_map_def zero_Session_def

lemmas store_defs = RedisStore_New_def RedisStore_Save_def RedisStore_RotateID_def load_def
  redis_Get_def redis_Set_def redis_Del_def pipe_Exec_def next_fault_def SetCookie_def NewCookie_def
  redisKey_def GenerateSessionID_def NewSession_def setName_def setIsNew_def setID_def
  time_Until_def time_Sub_def time_After_def time_Add_def minDuration_def maxDuration_def
  Second_def wrap64_def

lemma demo_aead_contract: "aead_contract demo_aead"
  by (simp add: aead_contract_def demo_aead_def)

lemma demo_aead_rejects: "aead_rejects demo_aead ''app'' ''bpp''"
  by (simp add: aead_rejects_def demo_aead_def demo_tag_def)

lemma demo_base64_contract: "base64_contract demo_extern"
  by (simp add: base64_contract_def demo_extern_def)

lemma demo_hmac_contract: "hmac_contract demo_extern"
  by (simp add: hmac_contract_def demo_extern_def del: take_append)

lemma demo_json_contract:
  assumes "Name d = ''app''" and "Values d = Some [''user'' \<mapsto> Some ''alice'']"
    and "CreatedAt d = 100" and "UpdatedAt d = 100" and "ExpiresAt d = 5000"
  shows "json_contract demo_extern d"
  using assms
  by (cases d)
     (simp add: json_contract_def demo_extern_def demo_unmarshal_def toDTO_def demo_session_def)

lemma demo_json_session: "json_contract demo_extern (toDTO demo_session)"
  by (rule demo_json_contract) (simp_all add: toDTO_def demo_session_def)

section \<open>The envelope: sealing and opening\<close>

lemma rand_Read_enough:
  "n \<le> length ent \<Longrightarrow> rand_Read n ent = (Some (take n ent), drop n ent)"
  by (simp add: rand_Read_def)

lemma EncryptAndSign_envelope:
  assumes "json_Marshal X (toDTO v) = Some b" and "NonceSize (aead c) \<le> length ent"
  shows "EncryptAndSign X c v a ent =
           (Inr (base64_StdEncode X (envelope X c (take (NonceSize (aead c)) ent) b a)),
            drop (NonceSize (aead c)) ent)"
  using assms
  by (simp add: EncryptAndSign_def MarshalJSON_def rand_Read_enough Seal_def envelope_def Let_def)

lemma open_payload_sealed:
  assumes "length nonce = NonceSize (aead c)"
  shows "open_payload X c (nonce @ ct) dest ad =
           (case opened (aead c) nonce ct ad of
              None \<Rightarrow> ([(nonce, ct, ad)], Inl ErrEncryptionFailed)
            | Some p \<Rightarrow>
                (case UnmarshalJSON X dest p of
                   Inl err \<Rightarrow> ([(nonce, ct, ad)], Inl (Errorf ''failed to unmarshal data'' err))
                 | Inr s \<Rightarrow> ([(nonce, ct, ad)], Inr s)))"
  using assms [symmetric]
  by (simp add: open_payload_def Open_def Let_def split: option.splits sum.splits)

lemma verify_own_signature: "verify X c data (sign X c data)"
  by (simp add: verify_def ConstantTimeCompare_def)

text \<open>
  Whatever additional data it is opened with, an envelope of this code passes the length
  check and the signature check, and reaches the AEAD.
\<close>

lemma DecryptAndVerify_envelope:
  assumes b64: "base64_contract X" and hm: "hmac_contract X"
    and len: "length nonce = NonceSize (aead c)"
    and long: "length p + Overhead (aead c) \<le> length (sealed (aead c) nonce p a)"
    and ne: "p \<noteq> []"
  shows "DecryptAndVerify X c (base64_StdEncode X (envelope X c nonce p a)) dest ad =
           open_payload X c (nonce @ sealed (aead c) nonce p a) dest ad"
proof -
  have dec: "base64_StdDecode X (base64_StdEncode X (envelope X c nonce p a)) =
      Some (envelope X c nonce p a)"
    using b64 by (simp add: base64_contract_def)
  have sig: "length (sign X c d) = 32" for d
    using hm by (simp add: hmac_contract_def sign_def)
  have pos: "\<not> length (sealed (aead c) nonce p a) < Suc (Overhead (aead c))"
    using long ne by (cases p) simp_all
  show ?thesis
  proof (cases "signingKey c")
    case None
    then show ?thesis
      using dec len long pos
      by (simp add: DecryptAndVerify_def envelope_def Let_def)
  next
    case (Some k)
    then show ?thesis
      using dec len long pos sig verify_own_signature [of X c]
      by (simp add: DecryptAndVerify_def envelope_def Let_def)
  qed
qed

lemma UnmarshalJSON_toDTO:
  assumes "json_Unmarshal X b = Some (toDTO v)"
  shows "UnmarshalJSON X dest b =
           Inr (v\<lparr>isNew := False,
                   values_s := (if values_s v = None then make_map else values_s v)\<rparr>)"
  using assms by (cases v, cases dest) (simp add: UnmarshalJSON_def toDTO_def)

lemma demo_encrypt:
  "EncryptAndSign demo_extern demo_crypto demo_session ''app'' ''xyzw'' =
     (Inr ''=keyxy{sid0}a00000000000000000000xy{sid0}a'', ''zw'')"
  by (simp add: demo_defs cipher_defs)

lemma demo_decrypt:
  "DecryptAndVerify demo_extern demo_crypto ''=keyxy{sid0}a00000000000000000000xy{sid0}a''
     zero_Session ''app'' =
     ([(''xy'', ''{sid0}a'', ''app'')], Inr (demo_session\<lparr>isNew := False\<rparr>))"
  by (simp add: demo_defs cipher_defs)

text \<open>
  Claim C1, as amended. For every session \<open>v\<close> that the encoder can serialize and read
  back, and every additional data \<open>a\<close>, with or without a signing key: encryption
  succeeds, and decrypting its output with the same additional data succeeds and yields
  \<open>v\<close> in every persisted field (identifier, name, values, the three times). The
  transient flag \<open>isNew\<close> is false in the result, and a values map that was never
  allocated comes back as the empty map.
\<close>

theorem roundtrip_persisted:
  assumes ae: "aead_contract (aead c)" and b64: "base64_contract X" and hm: "hmac_contract X"
    and js: "json_contract X (toDTO v)" and ent: "NonceSize (aead c) \<le> length ent"
  shows "\<exists>env ent'. EncryptAndSign X c v a ent = (Inr env, ent') \<and>
           snd (DecryptAndVerify X c env dest a) =
             Inr (v\<lparr>isNew := False,
                     values_s := (if values_s v = None then make_map else values_s v)\<rparr>)"
proof -
  from js obtain b where m: "json_Marshal X (toDTO v) = Some b" and ne: "b \<noteq> []"
    and u: "json_Unmarshal X b = Some (toDTO v)"
    by (auto simp add: json_contract_def)
  let ?n = "take (NonceSize (aead c)) ent"
  have len: "length ?n = NonceSize (aead c)" using ent by simp
  have op: "opened (aead c) ?n (sealed (aead c) ?n b a) a = Some b"
    and sl: "length (sealed (aead c) ?n b a) = length b + Overhead (aead c)"
    using ae len by (simp_all add: aead_contract_def)
  have enc: "EncryptAndSign X c v a ent =
      (Inr (base64_StdEncode X (envelope X c ?n b a)), drop (NonceSize (aead c)) ent)"
    by (rule EncryptAndSign_envelope [OF m ent])
  have "DecryptAndVerify X c (base64_StdEncode X (envelope X c ?n b a)) dest a =
      open_payload X c (?n @ sealed (aead c) ?n b a) dest a"
    by (rule DecryptAndVerify_envelope [OF b64 hm len _ ne]) (simp add: sl)
  also have "\<dots> = ([(?n, sealed (aead c) ?n b a, a)],
      Inr (v\<lparr>isNew := False,
              values_s := (if values_s v = None then make_map else values_s v)\<rparr>))"
    by (simp add: open_payload_sealed [OF len] op UnmarshalJSON_toDTO [OF u])
  finally show ?thesis using enc by simp
qed

theorem roundtrip_persisted_witness:
  "aead_contract (aead demo_crypto) \<and> aead_contract (aead demo_crypto_unsigned) \<and>
   base64_contract demo_extern \<and> hmac_contract demo_extern \<and>
   json_contract demo_extern (toDTO demo_session) \<and>
   NonceSize (aead demo_crypto) \<le> length ''xyzw'' \<and>
   (\<exists>env ent'. EncryptAndSign demo_extern demo_crypto demo_session ''app'' ''xyzw'' = (Inr env, ent') \<and>
      snd (DecryptAndVerify demo_extern demo_crypto env zero_Session ''app'') =
        Inr (demo_session\<lparr>isNew := False\<rparr>)) \<and>
   (\<exists>env ent'. EncryptAndSign demo_extern demo_crypto_unsigned demo_session ''app'' ''xyzw'' = (Inr env, ent') \<and>
      snd (DecryptAndVerify demo_extern demo_crypto_unsigned env zero_Session ''app'') =
        Inr (demo_session\<lparr>isNew := False\<rparr>))"
proof -
  have a1: "aead_contract (aead demo_crypto)"
    using demo_aead_contract by (simp add: demo_crypto_def)
  have a2: "aead_contract (aead demo_crypto_unsigned)"
    using demo_aead_contract by (simp add: demo_crypto_unsigned_def)
  have n1: "NonceSize (aead demo_crypto) \<le> length ''xyzw''"
    by (simp add: demo_crypto_def demo_aead_def)
  have n2: "NonceSize (aead demo_crypto_unsigned) \<le> length ''xyzw''"
    by (simp add: demo_crypto_unsigned_def demo_aead_def)
  have v: "demo_session\<lparr>isNew := False,
      values_s := (if values_s demo_session = None then make_map else values_s demo_session)\<rparr> =
      demo_session\<lparr>isNew := False\<rparr>"
    by (simp add: demo_session_def)
  note r1 = roundtrip_persisted [OF a1 demo_base64_contract demo_hmac_contract demo_json_session n1,
      of "''app''" zero_Session]
  note r2 = roundtrip_persisted [OF a2 demo_base64_contract demo_hmac_contract demo_json_session n2,
      of "''app''" zero_Session]
  show ?thesis
    using a1 a2 demo_base64_contract demo_hmac_contract demo_json_session n1 r1 r2
    unfolding v by blast
qed

text \<open>
  Claim C1 as stated fails: a session that was just created has \<open>isNew\<close> set, and
  comes back from its own envelope with \<open>isNew\<close> cleared, so the result is not the
  value that was encrypted.
\<close>

theorem roundtrip_counterexample:
  "aead_contract (aead demo_crypto) \<and> base64_contract demo_extern \<and>
   hmac_contract demo_extern \<and> json_contract demo_extern (toDTO demo_session) \<and>
   EncryptAndSign demo_extern demo_crypto demo_session ''app'' ''xyzw'' =
     (Inr ''=keyxy{sid0}a00000000000000000000xy{sid0}a'', ''zw'') \<and>
   snd (DecryptAndVerify demo_extern demo_crypto ''=keyxy{sid0}a00000000000000000000xy{sid0}a''
          zero_Session ''app'') \<noteq> Inr demo_session"
proof -
  have "aead_contract (aead demo_crypto)"
    using demo_aead_contract by (simp add: demo_crypto_def)
  moreover have "demo_session\<lparr>isNew := False\<rparr> \<noteq> demo_session"
    by (simp add: demo_session_def)
  ultimately show ?thesis
    using demo_base64_contract demo_hmac_contract demo_json_session demo_encrypt demo_decrypt
    by simp
qed

section \<open>Rejected envelopes\<close>


text \<open>
  Claim C4, as amended. When the text is not valid base64, \<open>DecryptAndVerify\<close> fails
  with the wrapped decoding error, which is not \<open>ErrInvalidSessionData\<close> and does not
  wrap it. When the decoded bytes are shorter than the minimum size (32 signature bytes if
  a signing key is configured, the nonce, the overhead, one byte of plaintext), it fails
  with \<open>ErrInvalidSessionData\<close>. In both cases the AEAD is not called.
\<close>

theorem DecryptAndVerify_malformed:
  "(base64_StdDecode X t = None \<longrightarrow>
      DecryptAndVerify X c t dest a = ([], Inl (Errorf ''failed to decode base64'' (External ''base64''))) \<and>
      \<not> errors_Is (Errorf ''failed to decode base64'' (External ''base64'')) ErrInvalidSessionData) \<and>
   (\<forall>decoded. base64_StdDecode X t = Some decoded \<and>
        length decoded < (if signingKey c \<noteq> None then 32 else 0) + NonceSize (aead c) + Overhead (aead c) + 1 \<longrightarrow>
        DecryptAndVerify X c t dest a = ([], Inl ErrInvalidSessionData))"
  by (simp add: DecryptAndVerify_def Let_def)

theorem DecryptAndVerify_malformed_witness:
  "base64_StdDecode demo_extern ''!!!'' = None \<and>
   DecryptAndVerify demo_extern demo_crypto ''!!!'' (zero_Session :: string Session) ''app'' =
     ([], Inl (Errorf ''failed to decode base64'' (External ''base64''))) \<and>
   base64_StdDecode demo_extern ''=short'' = Some ''short'' \<and>
   length ''short'' < (if signingKey demo_crypto \<noteq> None then 32 else 0) + NonceSize (aead demo_crypto) + Overhead (aead demo_crypto) + 1 \<and>
   DecryptAndVerify demo_extern demo_crypto ''=short'' (zero_Session :: string Session) ''app'' =
     ([], Inl ErrInvalidSessionData)"
proof -
  have d1: "base64_StdDecode demo_extern ''!!!'' = None"
    by (simp add: demo_extern_def)
  have d2: "base64_StdDecode demo_extern ''=short'' = Some ''short''"
    by (simp add: demo_extern_def)
  have l: "length ''short'' < (if signingKey demo_crypto \<noteq> None then 32 else 0) + NonceSize (aead demo_crypto) + Overhead (aead demo_crypto) + 1"
    by (simp add: demo_crypto_def demo_aead_def)
  from DecryptAndVerify_malformed [of demo_extern "''!!!''" demo_crypto zero_Session "''app''"] d1
  have r1: "DecryptAndVerify demo_extern demo_crypto ''!!!'' (zero_Session :: string Session) ''app'' =
     ([], Inl (Errorf ''failed to decode base64'' (External ''base64'')))"
    by blast
  from DecryptAndVerify_malformed [of demo_extern "''=short''" demo_crypto zero_Session "''app''"] d2 l
  have r2: "DecryptAndVerify demo_extern demo_crypto ''=short'' (zero_Session :: string Session) ''app'' =
     ([], Inl ErrInvalidSessionData)"
    by blast
  show ?thesis using d1 d2 l r1 r2 by blast
qed

text \<open>
  Claim C4 as stated fails on a text that is not base64: the error is not
  \<open>ErrInvalidSessionData\<close>.
\<close>

theorem base64_failure_counterexample:
  "base64_StdDecode demo_extern ''!!!'' = None \<and>
   snd (DecryptAndVerify demo_extern demo_crypto ''!!!'' (zero_Session :: string Session) ''app'') \<noteq>
     Inl ErrInvalidSessionData"
  by (simp add: demo_defs cipher_defs)

text \<open>
  Claim C5. With a signing key configured and decoded bytes of at least the minimum
  length: when the HMAC of the bytes after the first 32 differs from those 32 bytes,
  \<open>DecryptAndVerify\<close> fails with \<open>ErrSignatureInvalid\<close> and has made no call to
  \<open>Open\<close> of the AEAD.
\<close>

theorem signature_mismatch_fails_closed:
  assumes "signingKey c = Some k" and "base64_StdDecode X t = Some decoded"
    and "32 + NonceSize (aead c) + Overhead (aead c) + 1 \<le> length decoded"
    and "hmac_sha256 X k (drop 32 decoded) \<noteq> take 32 decoded"
  shows "DecryptAndVerify X c t dest a = ([], Inl ErrSignatureInvalid)"
  using assms
  by (auto simp add: DecryptAndVerify_def verify_def sign_def ConstantTimeCompare_def Let_def)

theorem signature_mismatch_fails_closed_witness:
  "signingKey demo_crypto = Some ''key'' \<and>
   base64_StdDecode demo_extern ''=XXXxy{sid0}a00000000000000000000xy{sid0}a'' =
     Some ''XXXxy{sid0}a00000000000000000000xy{sid0}a'' \<and>
   32 + NonceSize (aead demo_crypto) + Overhead (aead demo_crypto) + 1 \<le>
     length ''XXXxy{sid0}a00000000000000000000xy{sid0}a'' \<and>
   hmac_sha256 demo_extern ''key'' (drop 32 ''XXXxy{sid0}a00000000000000000000xy{sid0}a'') \<noteq>
     take 32 ''XXXxy{sid0}a00000000000000000000xy{sid0}a'' \<and>
   DecryptAndVerify demo_extern demo_crypto ''=XXXxy{sid0}a00000000000000000000xy{sid0}a''
     (zero_Session :: string Session) ''app'' = ([], Inl ErrSignatureInvalid)"
proof -
  have k: "signingKey demo_crypto = Some ''key''"
    by (simp add: demo_crypto_def)
  have d: "base64_StdDecode demo_extern ''=XXXxy{sid0}a00000000000000000000xy{sid0}a'' =
     Some ''XXXxy{sid0}a00000000000000000000xy{sid0}a''"
    by (simp add: demo_extern_def)
  have l: "32 + NonceSize (aead demo_crypto) + Overhead (aead demo_crypto) + 1 \<le>
     length ''XXXxy{sid0}a00000000000000000000xy{sid0}a''"
    by (simp add: demo_crypto_def demo_aead_def)
  have h: "hmac_sha256 demo_extern ''key'' (drop 32 ''XXXxy{sid0}a00000000000000000000xy{sid0}a'') \<noteq>
     take 32 ''XXXxy{sid0}a00000000000000000000xy{sid0}a''"
    by (simp add: demo_extern_def)
  show ?thesis
    using k d l h signature_mismatch_fails_closed [OF k d l h, of zero_Session "''app''"]
    by blast
qed

text \<open>
  Claim C6. For every serializable session and additional data \<open>A \<noteq> B\<close>, given an
  AEAD that authenticates the additional data (it opens under \<open>B\<close> nothing sealed
  under \<open>A\<close>): the envelope produced under \<open>A\<close> passes the length and signature
  checks and decrypting it under \<open>B\<close> fails with \<open>ErrEncryptionFailed\<close>.
\<close>

theorem aad_mismatch_fails:
  assumes neq: "A \<noteq> B"
    and ae: "aead_contract (aead c)" and rej: "aead_rejects (aead c) A B"
    and b64: "base64_contract X" and hm: "hmac_contract X"
    and js: "json_contract X (toDTO v)" and ent: "NonceSize (aead c) \<le> length ent"
  shows "\<exists>env ent'. EncryptAndSign X c v A ent = (Inr env, ent') \<and>
           snd (DecryptAndVerify X c env dest B) = Inl ErrEncryptionFailed"
proof -
  from js obtain b where m: "json_Marshal X (toDTO v) = Some b" and ne: "b \<noteq> []"
    by (auto simp add: json_contract_def)
  let ?n = "take (NonceSize (aead c)) ent"
  have len: "length ?n = NonceSize (aead c)" using ent by simp
  have sl: "length (sealed (aead c) ?n b A) = length b + Overhead (aead c)"
    using ae len by (simp add: aead_contract_def)
  have no: "opened (aead c) ?n (sealed (aead c) ?n b A) B = None"
    using rej by (simp add: aead_rejects_def)
  have enc: "EncryptAndSign X c v A ent =
      (Inr (base64_StdEncode X (envelope X c ?n b A)), drop (NonceSize (aead c)) ent)"
    by (rule EncryptAndSign_envelope [OF m ent])
  have "DecryptAndVerify X c (base64_StdEncode X (envelope X c ?n b A)) dest B =
      open_payload X c (?n @ sealed (aead c) ?n b A) dest B"
    by (rule DecryptAndVerify_envelope [OF b64 hm len _ ne]) (simp add: sl)
  also have "\<dots> = ([(?n, sealed (aead c) ?n b A, B)], Inl ErrEncryptionFailed)"
    by (simp add: open_payload_sealed [OF len] no)
  finally show ?thesis using enc by simp
qed

theorem aad_mismatch_fails_witness:
  "''app'' \<noteq> ''bpp'' \<and> aead_contract (aead demo_crypto) \<and>
   aead_rejects (aead demo_crypto) ''app'' ''bpp'' \<and>
   base64_contract demo_extern \<and> hmac_contract demo_extern \<and>
   json_contract demo_extern (toDTO demo_session) \<and>
   NonceSize (aead demo_crypto) \<le> length ''xyzw'' \<and>
   (\<exists>env ent'. EncryptAndSign demo_extern demo_crypto demo_session ''app'' ''xyzw'' = (Inr env, ent') \<and>
      snd (DecryptAndVerify demo_extern demo_crypto env zero_Session ''bpp'') = Inl ErrEncryptionFailed)"
proof -
  have neq: "''app'' \<noteq> ''bpp''" by simp
  have a1: "aead_contract (aead demo_crypto)"
    using demo_aead_contract by (simp add: demo_crypto_def)
  have rj: "aead_rejects (aead demo_crypto) ''app'' ''bpp''"
    using demo_aead_rejects by (simp add: demo_crypto_def)
  have n1: "NonceSize (aead demo_crypto) \<le> length ''xyzw''"
    by (simp add: demo_crypto_def demo_aead_def)
  show ?thesis
    using neq a1 rj demo_base64_contract demo_hmac_contract demo_json_session n1
      aad_mismatch_fails [OF neq a1 rj demo_base64_contract demo_hmac_contract demo_json_session n1,
        of zero_Session]
    by blast
qed


section \<open>Set, Get and Delete on any session\<close>

text \<open>
  Claim C10. On every session, also one whose values map was never allocated:
  \<open>Set\<close> does not panic, leaves the map allocated and the value readable under its key;
  \<open>Get\<close> does not panic; \<open>Delete\<close> does not panic and \<open>Get\<close> of the deleted key
  is nil; \<open>Get\<close> of a key that is not in the map (or of any key when the map is nil) is
  nil.
\<close>

theorem Session_map_never_fails:
  "(\<exists>s'. Session_Set s key val now = Inr s' \<and> values_s s' \<noteq> None \<and>
          Session_Get s' key = Inr val) \<and>
   (\<exists>v. Session_Get s key = Inr v) \<and>
   (\<exists>s'. Session_Delete s key now = Inr s' \<and> Session_Get s' key = Inr None) \<and>
   ((values_s s = None \<or> (\<exists>f. values_s s = Some f \<and> f key = None)) \<longrightarrow>
      Session_Get s key = Inr None)"
  by (cases "values_s s")
     (auto simp add: Session_Set_def Session_Get_def Session_Delete_def mapassign_def
        mapaccess_def mapdelete_def make_map_def Let_def split: option.splits)

theorem Session_map_never_fails_witness:
  "values_s (zero_Session :: string Session) = None \<and>
   (\<exists>s'. Session_Set (zero_Session :: string Session) ''user'' (Some ''alice'') 7 = Inr s' \<and>
          values_s s' \<noteq> None \<and> Session_Get s' ''user'' = Inr (Some ''alice'')) \<and>
   Session_Get (zero_Session :: string Session) ''user'' = Inr None \<and>
   (\<exists>s'. Session_Delete (zero_Session :: string Session) ''user'' 7 = Inr s' \<and>
          Session_Get s' ''user'' = Inr None)"
proof -
  have z: "values_s (zero_Session :: string Session) = None"
    by (simp add: zero_Session_def)
  show ?thesis
    using z Session_map_never_fails [of "zero_Session :: string Session" "''user''" "Some ''alice''" 7]
    by blast
qed


section \<open>Durations and the remote store\<close>

lemma time_Until_nonpos: "(time_Until now t \<le> 0) = (t - now \<le> 0)"
  by (simp add: time_Until_def time_Sub_def minDuration_def maxDuration_def)

lemma time_Until_pos: "0 < t - now \<Longrightarrow> time_Until now t = min (t - now) maxDuration"
  by (simp add: time_Until_def time_Sub_def minDuration_def maxDuration_def)

lemma rotate_ttl:
  "(if time_Until now t \<le> 0 then Second else time_Until now t) =
   (if t - now \<le> 0 then Second else min (t - now) maxDuration)"
  by (simp add: time_Until_nonpos time_Until_pos)

lemma redis_Get_entropy:
  "redis_Get key w = (res, w1) \<Longrightarrow> entropy w1 = entropy w"
  by (auto simp add: redis_Get_def next_fault_def split: list.splits option.splits prod.splits)

lemma redis_Del_entropy: "entropy (snd (redis_Del key w)) = entropy w"
  by (auto simp add: redis_Del_def next_fault_def split: list.splits option.splits)

lemma redis_Del_answered:
  "fst (next_fault w) = None \<Longrightarrow> kv (snd (redis_Del key w)) key = None"
  by (auto simp add: redis_Del_def next_fault_def split: list.splits option.splits)

lemma pipe_Exec_done:
  "pipe_Exec cmds w = (Inr u, w') \<Longrightarrow> kv w' = fold apply_cmd cmds (kv w)"
  by (auto simp add: pipe_Exec_def next_fault_def split: list.splits option.splits)

lemma GenerateSessionID_enough:
  "32 \<le> length ent \<Longrightarrow>
     GenerateSessionID X ent = (Inr (base64_RawURLEncode X (take 32 ent)), drop 32 ent)"
  by (simp add: GenerateSessionID_def rand_Read_def)

lemma GenerateSessionID_short:
  "length ent < 32 \<Longrightarrow>
     GenerateSessionID X ent = (Inl (Errorf ''failed to generate session ID'' (External ''rand'')), ent)"
  by (simp add: GenerateSessionID_def rand_Read_def)

lemma GenerateSessionID_error:
  "GenerateSessionID X ent = (Inl e, ent') \<Longrightarrow>
     e = Errorf ''failed to generate session ID'' (External ''rand'')"
  by (simp add: GenerateSessionID_def rand_Read_def split: if_splits)

section \<open>Save\<close>

text \<open>
  Claim C7. When the remaining time-to-live \<open>expiresAt - now\<close> is zero or negative,
  \<open>Save\<close> fails with \<open>ErrSessionExpired\<close> and the world is as before: nothing is
  written to the store and no cookie is set. When it is positive, and encryption succeeds
  and the store answers, the envelope is written under the key prefix, name, colon,
  identifier, with the remaining time-to-live as its expiry (a \<^verbatim>\<open>time.Duration\<close>, so
  at most \<open>maxDuration\<close>), and the cookie is set.
\<close>

theorem Save_expiry:
  "(expiresAt session - now \<le> 0 \<longrightarrow>
      RedisStore_Save X s now session w = (Inl ErrSessionExpired, w)) \<and>
   (0 < expiresAt session - now \<and>
    EncryptAndSign X (crypto s) session (name session) (entropy w) = (Inr encrypted, ent') \<and>
    fst (next_fault w) = None \<longrightarrow>
      RedisStore_Save X s now session w =
        (Inr (),
         w\<lparr>entropy := ent', faults := tl (faults w),
           kv := (kv w)(prefix s @ name session @ '':'' @ id_s session \<mapsto>
                          (encrypted, min (expiresAt session - now) maxDuration)),
           cookies := cookies w @ [NewCookie (options s) session]\<rparr>))"
proof (intro conjI impI)
  assume "expiresAt session - now \<le> 0"
  then show "RedisStore_Save X s now session w = (Inl ErrSessionExpired, w)"
    by (simp add: RedisStore_Save_def Let_def time_Until_nonpos)
next
  assume a: "0 < expiresAt session - now \<and>
    EncryptAndSign X (crypto s) session (name session) (entropy w) = (Inr encrypted, ent') \<and>
    fst (next_fault w) = None"
  then have p: "\<not> time_Until now (expiresAt session) \<le> 0"
    by (simp add: time_Until_nonpos)
  from a have t: "time_Until now (expiresAt session) = min (expiresAt session - now) maxDuration"
    by (simp add: time_Until_pos)
  from a have f: "next_fault (w\<lparr>entropy := ent'\<rparr>) = (None, w\<lparr>entropy := ent', faults := tl (faults w)\<rparr>)"
    by (cases "faults w") (simp_all add: next_fault_def)
  show "RedisStore_Save X s now session w =
        (Inr (),
         w\<lparr>entropy := ent', faults := tl (faults w),
           kv := (kv w)(prefix s @ name session @ '':'' @ id_s session \<mapsto>
                          (encrypted, min (expiresAt session - now) maxDuration)),
           cookies := cookies w @ [NewCookie (options s) session]\<rparr>)"
    using a p
    by (simp add: RedisStore_Save_def Let_def redis_Set_def f SetCookie_def redisKey_def t)
qed

theorem Save_expiry_witness:
  "expiresAt demo_session - 6000 \<le> 0 \<and>
   RedisStore_Save demo_extern demo_store 6000 demo_session demo_world = (Inl ErrSessionExpired, demo_world) \<and>
   0 < expiresAt demo_session - 50 \<and>
   EncryptAndSign demo_extern (crypto demo_store) demo_session (name demo_session) (entropy demo_world) =
     (Inr ''=keyab{sid0}a00000000000000000000ab{sid0}a'',
      ''cdefghijklmnopqrstuvwxyzABCDEFGHIJKLMNOPQRSTUVWXYZ'') \<and>
   fst (next_fault demo_world) = None \<and>
   fst (RedisStore_Save demo_extern demo_store 50 demo_session demo_world) = Inr () \<and>
   kv (snd (RedisStore_Save demo_extern demo_store 50 demo_session demo_world)) ''test:app:sid0'' =
     Some (''=keyab{sid0}a00000000000000000000ab{sid0}a'', 4950)"
proof -
  have x: "expiresAt demo_session - 6000 \<le> 0" by (simp add: demo_session_def)
  have p: "0 < expiresAt demo_session - 50" by (simp add: demo_session_def)
  have en: "EncryptAndSign demo_extern (crypto demo_store) demo_session (name demo_session) (entropy demo_world) =
     (Inr ''=keyab{sid0}a00000000000000000000ab{sid0}a'',
      ''cdefghijklmnopqrstuvwxyzABCDEFGHIJKLMNOPQRSTUVWXYZ'')"
    by (simp add: demo_defs cipher_defs)
  have f: "fst (next_fault demo_world) = None"
    by (simp add: demo_world_def next_fault_def)
  note t1 = Save_expiry [of demo_session 6000 demo_extern demo_store demo_world]
  note t2 = Save_expiry [of demo_session 50 demo_extern demo_store demo_world
      "''=keyab{sid0}a00000000000000000000ab{sid0}a''"
      "''cdefghijklmnopqrstuvwxyzABCDEFGHIJKLMNOPQRSTUVWXYZ''"]
  from t1 x have r1: "RedisStore_Save demo_extern demo_store 6000 demo_session demo_world =
      (Inl ErrSessionExpired, demo_world)"
    by blast
  from t2 p en f have r2: "RedisStore_Save demo_extern demo_store 50 demo_session demo_world =
        (Inr (),
         demo_world\<lparr>entropy := ''cdefghijklmnopqrstuvwxyzABCDEFGHIJKLMNOPQRSTUVWXYZ'',
           faults := tl (faults demo_world),
           kv := (kv demo_world)(prefix demo_store @ name demo_session @ '':'' @ id_s demo_session \<mapsto>
                          (''=keyab{sid0}a00000000000000000000ab{sid0}a'',
                           min (expiresAt demo_session - 50) maxDuration)),
           cookies := cookies demo_world @ [NewCookie (options demo_store) demo_session]\<rparr>)"
    by blast
  have k: "kv (snd (RedisStore_Save demo_extern demo_store 50 demo_session demo_world)) ''test:app:sid0'' =
     Some (''=keyab{sid0}a00000000000000000000ab{sid0}a'', 4950)"
    unfolding r2 by (simp add: demo_store_def demo_session_def maxDuration_def)
  from x r1 p en f r2 k show ?thesis by simp
qed

section \<open>Resolving an incoming identifier\<close>

lemma load_propagates:
  assumes "redis_Get (redisKey s n sid) w = (Inl e, w1)" and "\<not> errors_Is e RedisNil"
  shows "load X s now n sid w = (Inl e, w1)"
  using assms by (simp add: load_def Let_def)

lemma load_expired:
  assumes "redis_Get (redisKey s n sid) w = (Inr encrypted, w1)"
    and "snd (DecryptAndVerify X (crypto s) encrypted zero_Session n) = Inr old"
    and "expiresAt old < now"
  shows "load X s now n sid w = (Inl ErrSessionExpired, snd (redis_Del (redisKey s n sid) w1))"
  using assms by (simp add: load_def Let_def time_After_def)

lemma New_after_failed_load:
  assumes "r n = Some sid" and "load X s now n sid w = (Inl e, w1)"
  shows "RedisStore_New X s now r n w =
           (case GenerateSessionID X (entropy w1) of
              (Inl err, ent') \<Rightarrow> (Inl err, w1\<lparr>entropy := ent'\<rparr>)
            | (Inr ident, ent') \<Rightarrow>
                (Inr (setName (setIsNew (NewSession ident (wrap64 (opt_MaxAge (options s) * Second)) now) True) n),
                 w1\<lparr>entropy := ent'\<rparr>))"
  using assms by (simp add: RedisStore_New_def)

lemma New_error_only_from_id:
  assumes "RedisStore_New X s now r n w = (Inl e, w')"
  shows "e = Errorf ''failed to generate session ID'' (External ''rand'')"
  using assms
  by (auto simp add: RedisStore_New_def Let_def split: option.splits prod.splits sum.splits
        dest: GenerateSessionID_error)

lemma demo_load_refused:
  "load demo_extern demo_store 50 ''app'' ''sid0'' refused_world =
     (Inl (External ''connection refused''), demo_world)"
  by (simp add: refused_world_def demo_defs store_defs)

lemma demo_New_refused:
  "RedisStore_New demo_extern demo_store 50 [''app'' \<mapsto> ''sid0''] ''app'' refused_world =
     (Inr \<lparr> id_s = ''abcdefghijklmnopqrstuvwxyzABCDEF'', name = ''app'', values_s = Some Map.empty,
            isNew = True, createdAt = 50, updatedAt = 50, expiresAt = 10000000050 \<rparr>,
      demo_world\<lparr>entropy := ''GHIJKLMNOPQRSTUVWXYZ''\<rparr>)"
  by (simp add: refused_world_def demo_defs store_defs rand_Read_def make_map_def)

lemma demo_Get_stale:
  "redis_Get (redisKey demo_store ''app'' ''sid0'') stale_world =
     (Inr ''=keyxy{sid0}a00000000000000000000xy{sid0}a'', stale_world)"
  by (simp add: stale_world_def demo_defs store_defs)

lemma demo_decrypt_store:
  "snd (DecryptAndVerify demo_extern (crypto demo_store) ''=keyxy{sid0}a00000000000000000000xy{sid0}a''
          zero_Session ''app'') = Inr (demo_session\<lparr>isNew := False\<rparr>)"
  using demo_decrypt by (simp add: demo_store_def)

text \<open>
  Claim C2, as amended. \<open>load\<close> returns an infrastructure error of the store (any error
  of the fetch other than key-not-found) unchanged. \<open>New\<close> does not: whatever error
  \<open>load\<close> failed with, infrastructure errors included, \<open>New\<close> returns a freshly
  created session with \<open>isNew\<close> set and no values, provided the random source delivers
  an identifier. The only error \<open>New\<close> returns is the failure to generate one.
\<close>

theorem resolve_failure_gives_new_session:
  "(\<forall>e w1. redis_Get (redisKey s n sid) w = (Inl e, w1) \<and> \<not> errors_Is e RedisNil \<longrightarrow>
       load X s now n sid w = (Inl e, w1)) \<and>
   (\<forall>e w1. r n = Some sid \<and> load X s now n sid w = (Inl e, w1) \<and> 32 \<le> length (entropy w1) \<longrightarrow>
       (\<exists>fresh w'. RedisStore_New X s now r n w = (Inr fresh, w') \<and> isNew fresh \<and>
          values_s fresh = Some Map.empty \<and> name fresh = n \<and>
          id_s fresh = base64_RawURLEncode X (take 32 (entropy w1)))) \<and>
   (\<forall>e w'. RedisStore_New X s now r n w = (Inl e, w') \<longrightarrow>
       e = Errorf ''failed to generate session ID'' (External ''rand''))"
proof (intro conjI allI impI)
  fix e w1
  assume "redis_Get (redisKey s n sid) w = (Inl e, w1) \<and> \<not> errors_Is e RedisNil"
  then show "load X s now n sid w = (Inl e, w1)"
    by (simp add: load_propagates)
next
  fix e w1
  assume a: "r n = Some sid \<and> load X s now n sid w = (Inl e, w1) \<and> 32 \<le> length (entropy w1)"
  then have "RedisStore_New X s now r n w =
      (Inr (setName (setIsNew (NewSession (base64_RawURLEncode X (take 32 (entropy w1)))
                (wrap64 (opt_MaxAge (options s) * Second)) now) True) n),
       w1\<lparr>entropy := drop 32 (entropy w1)\<rparr>)"
    by (simp add: New_after_failed_load [of r n sid X s now w e w1] GenerateSessionID_enough)
  then show "\<exists>fresh w'. RedisStore_New X s now r n w = (Inr fresh, w') \<and> isNew fresh \<and>
          values_s fresh = Some Map.empty \<and> name fresh = n \<and>
          id_s fresh = base64_RawURLEncode X (take 32 (entropy w1))"
    by (simp add: setName_def setIsNew_def NewSession_def make_map_def)
next
  fix e w'
  assume "RedisStore_New X s now r n w = (Inl e, w')"
  then show "e = Errorf ''failed to generate session ID'' (External ''rand'')"
    by (rule New_error_only_from_id)
qed

theorem resolve_failure_gives_new_session_witness:
  "redis_Get (redisKey demo_store ''app'' ''sid0'') refused_world =
     (Inl (External ''connection refused''), demo_world) \<and>
   \<not> errors_Is (External ''connection refused'') RedisNil \<and>
   [''app'' \<mapsto> ''sid0''] ''app'' = Some ''sid0'' \<and>
   32 \<le> length (entropy demo_world) \<and>
   load demo_extern demo_store 50 ''app'' ''sid0'' refused_world =
     (Inl (External ''connection refused''), demo_world) \<and>
   (\<exists>fresh w'. RedisStore_New demo_extern demo_store 50 [''app'' \<mapsto> ''sid0''] ''app'' refused_world =
        (Inr fresh, w') \<and> isNew fresh \<and> values_s fresh = Some Map.empty \<and> name fresh = ''app'') \<and>
   isl (fst (RedisStore_New demo_extern demo_store 50 Map.empty ''app''
               (demo_world\<lparr>entropy := ''short''\<rparr>))) \<and>
   fst (RedisStore_New demo_extern demo_store 50 Map.empty ''app''
          (demo_world\<lparr>entropy := ''short''\<rparr>)) =
     Inl (Errorf ''failed to generate session ID'' (External ''rand''))"
proof -
  let ?dry = "RedisStore_New demo_extern demo_store 50 Map.empty ''app''
      (demo_world\<lparr>entropy := ''short''\<rparr>)"
  have dry: "isl (fst ?dry)"
    by (simp add: demo_defs store_defs rand_Read_def)
  then obtain e0 where "fst ?dry = Inl e0"
    by (cases "fst ?dry") simp_all
  then have d0: "?dry = (Inl e0, snd ?dry)"
    by (cases ?dry) simp
  from resolve_failure_gives_new_session [where s = demo_store and n = "''app''"
      and w = "demo_world\<lparr>entropy := ''short''\<rparr>" and X = demo_extern and now = 50
      and r = Map.empty] d0
  have "e0 = Errorf ''failed to generate session ID'' (External ''rand'')"
    by blast
  with \<open>fst ?dry = Inl e0\<close>
  have dry_err: "fst ?dry = Inl (Errorf ''failed to generate session ID'' (External ''rand''))"
    by simp
  have g: "redis_Get (redisKey demo_store ''app'' ''sid0'') refused_world =
     (Inl (External ''connection refused''), demo_world)"
    by (simp add: refused_world_def demo_defs store_defs)
  have ni: "\<not> errors_Is (External ''connection refused'') RedisNil" by simp
  have c: "[''app'' \<mapsto> ''sid0''] ''app'' = Some ''sid0''" by simp
  have e: "32 \<le> length (entropy demo_world)" by (simp add: demo_world_def)
  note t = resolve_failure_gives_new_session [where s = demo_store and n = "''app''" and sid = "''sid0''"
      and w = refused_world and X = demo_extern and now = 50 and r = "[''app'' \<mapsto> ''sid0'']"]
  from t g ni have l: "load demo_extern demo_store 50 ''app'' ''sid0'' refused_world =
     (Inl (External ''connection refused''), demo_world)"
    by blast
  from t c l e have "\<exists>fresh w'. RedisStore_New demo_extern demo_store 50 [''app'' \<mapsto> ''sid0''] ''app'' refused_world =
        (Inr fresh, w') \<and> isNew fresh \<and> values_s fresh = Some Map.empty \<and> name fresh = ''app''"
    by blast
  with g ni c e l dry dry_err show ?thesis by blast
qed

text \<open>
  Claim C2 as stated fails when the store refuses the connection: \<open>load\<close> reports the
  connection error and \<open>New\<close> answers with a new session instead of the error.
\<close>

theorem infrastructure_error_counterexample:
  "fst (load demo_extern demo_store 50 ''app'' ''sid0'' refused_world) =
     Inl (External ''connection refused'') \<and>
   \<not> isl (fst (RedisStore_New demo_extern demo_store 50 [''app'' \<mapsto> ''sid0''] ''app'' refused_world)) \<and>
   isNew (projr (fst (RedisStore_New demo_extern demo_store 50 [''app'' \<mapsto> ''sid0''] ''app''
                        refused_world)))"
  by (simp add: demo_load_refused demo_New_refused)

text \<open>
  Claim C8. When the entry stored under the incoming identifier decrypts and verifies
  and its \<open>expiresAt\<close> has passed, \<open>New\<close> sends the delete of that key to the store
  (the key is gone when the store answers) and returns a freshly created session: its
  identifier is the encoding of 32 new bytes of the random source, its name is the
  requested name, \<open>isNew\<close> is set, the values map is allocated and empty (\<open>Get\<close> of
  every key is nil), it is created and updated now and expires \<open>MaxAge\<close> seconds from
  now. Nothing of the stored session is in it. The random source is assumed to deliver
  the 32 bytes of the new identifier.
\<close>

theorem expired_entry_gives_new_session:
  assumes c: "r n = Some sid"
    and g: "redis_Get (redisKey s n sid) w = (Inr encrypted, w1)"
    and d: "snd (DecryptAndVerify X (crypto s) encrypted zero_Session n) = Inr old"
    and x: "expiresAt old < now"
    and e: "32 \<le> length (entropy w)"
  shows "\<exists>fresh w'. RedisStore_New X s now r n w = (Inr fresh, w') \<and>
           fresh = \<lparr> id_s = base64_RawURLEncode X (take 32 (entropy w)), name = n,
                     values_s = Some Map.empty, isNew = True,
                     createdAt = now, updatedAt = now,
                     expiresAt = now + wrap64 (opt_MaxAge (options s) * Second) \<rparr> \<and>
           isNew fresh \<and> values_s fresh = Some Map.empty \<and>
           (\<forall>k. Session_Get fresh k = Inr None) \<and> name fresh = n \<and>
           w' = (snd (redis_Del (redisKey s n sid) w1))\<lparr>entropy := drop 32 (entropy w)\<rparr> \<and>
           (fst (next_fault w1) = None \<longrightarrow> kv w' (redisKey s n sid) = None)"
proof -
  let ?w2 = "snd (redis_Del (redisKey s n sid) w1)"
  have l: "load X s now n sid w = (Inl ErrSessionExpired, ?w2)"
    by (rule load_expired [OF g d x])
  have ent: "entropy ?w2 = entropy w"
    using redis_Get_entropy [OF g] by (simp add: redis_Del_entropy)
  have "RedisStore_New X s now r n w =
      (Inr (setName (setIsNew (NewSession (base64_RawURLEncode X (take 32 (entropy w)))
                (wrap64 (opt_MaxAge (options s) * Second)) now) True) n),
       ?w2\<lparr>entropy := drop 32 (entropy w)\<rparr>)"
    using e by (simp add: New_after_failed_load [where r = r and n = n and sid = sid, OF c l] ent GenerateSessionID_enough)
  then show ?thesis
    by (simp add: setName_def setIsNew_def NewSession_def make_map_def Session_Get_def
          mapaccess_def redis_Del_answered time_Add_def)
qed

theorem expired_entry_gives_new_session_witness:
  "[''app'' \<mapsto> ''sid0''] ''app'' = Some ''sid0'' \<and>
   redis_Get (redisKey demo_store ''app'' ''sid0'') stale_world =
     (Inr ''=keyxy{sid0}a00000000000000000000xy{sid0}a'', stale_world) \<and>
   snd (DecryptAndVerify demo_extern (crypto demo_store) ''=keyxy{sid0}a00000000000000000000xy{sid0}a''
          zero_Session ''app'') = Inr (demo_session\<lparr>isNew := False\<rparr>) \<and>
   expiresAt (demo_session\<lparr>isNew := False\<rparr>) < 6000 \<and>
   32 \<le> length (entropy stale_world) \<and>
   fst (next_fault stale_world) = None \<and>
   (\<exists>fresh w'. RedisStore_New demo_extern demo_store 6000 [''app'' \<mapsto> ''sid0''] ''app'' stale_world =
        (Inr fresh, w') \<and>
      fresh = \<lparr> id_s = ''abcdefghijklmnopqrstuvwxyzABCDEF'', name = ''app'',
                values_s = Some Map.empty, isNew = True,
                createdAt = 6000, updatedAt = 6000, expiresAt = 10000006000 \<rparr> \<and>
      isNew fresh \<and> values_s fresh = Some Map.empty \<and> Session_Get fresh ''user'' = Inr None \<and>
      kv w' (redisKey demo_store ''app'' ''sid0'') = None)"
proof -
  have i: "base64_RawURLEncode demo_extern (take 32 (entropy stale_world)) =
      ''abcdefghijklmnopqrstuvwxyzABCDEF''"
    by (simp add: stale_world_def demo_world_def demo_extern_def)
  have m: "(6000::int) + wrap64 (opt_MaxAge (options demo_store) * Second) = 10000006000"
    by (simp add: demo_store_def demo_options_def Second_def wrap64_def)
  have c: "[''app'' \<mapsto> ''sid0''] ''app'' = Some ''sid0''" by simp
  have x: "expiresAt (demo_session\<lparr>isNew := False\<rparr>) < 6000"
    by (simp add: demo_session_def)
  have e: "32 \<le> length (entropy stale_world)"
    by (simp add: stale_world_def demo_world_def)
  have f: "fst (next_fault stale_world) = None"
    by (simp add: stale_world_def demo_world_def next_fault_def)
  show ?thesis
    using c demo_Get_stale demo_decrypt_store x e f
      expired_entry_gives_new_session [where r = "[''app'' \<mapsto> ''sid0'']" and n = "''app''"
        and sid = "''sid0''", OF c demo_Get_stale demo_decrypt_store x e, unfolded i m]
    by blast
qed

section \<open>RotateID\<close>

lemma RotateID_after_id:
  assumes "32 \<le> length (entropy w)"
  shows "RedisStore_RotateID X s now session w =
     (let newID = base64_RawURLEncode X (take 32 (entropy w));
          session1 = session\<lparr>id_s := newID\<rparr>;
          ttl0 = time_Until now (expiresAt session);
          ttl = (if ttl0 \<le> 0 then Second else ttl0)
      in case EncryptAndSign X (crypto s) session1 (name session) (drop 32 (entropy w)) of
           (Inl err, ent2) \<Rightarrow> (Inl err, session1, w\<lparr>entropy := ent2\<rparr>)
         | (Inr encrypted, ent2) \<Rightarrow>
             (case pipe_Exec [CmdSet (redisKey s (name session) newID) encrypted ttl,
                              CmdDel (redisKey s (name session) (id_s session))]
                     (w\<lparr>entropy := ent2\<rparr>) of
                (Inl err, w') \<Rightarrow> (Inl err, session1, w')
              | (Inr u, w') \<Rightarrow> (Inr (), session1, SetCookie (NewCookie (options s) session1) w')))"
  using assms
  by (simp add: RedisStore_RotateID_def GenerateSessionID_enough Let_def setID_def
        split: prod.splits sum.splits)



lemma demo_rotate_ok:
  "fst (RedisStore_RotateID demo_extern demo_store 50 demo_session stale_world) = Inr ()"
  by (simp add: stale_world_def demo_defs store_defs cipher_defs)




text \<open>
  Claim C9, as amended. When \<open>RotateID\<close> succeeds, the entry written under the new
  identifier is a new envelope of the session in memory, carrying the new identifier;
  its expiry is the remaining time-to-live \<open>expiresAt - now\<close> when that is positive
  (at most \<open>maxDuration\<close>) and one second otherwise; the entry under the old
  identifier is deleted in the same transaction.
\<close>

theorem RotateID_entry:
  assumes ok: "fst (RedisStore_RotateID X s now session w) = Inr ()"
  shows "\<exists>newID ent1 encrypted ent2 session' w'.
      RedisStore_RotateID X s now session w = (Inr (), session', w') \<and>
      GenerateSessionID X (entropy w) = (Inr newID, ent1) \<and>
      session' = session\<lparr>id_s := newID\<rparr> \<and>
      EncryptAndSign X (crypto s) session' (name session) ent1 = (Inr encrypted, ent2) \<and>
      kv w' = ((kv w)(redisKey s (name session) newID \<mapsto>
                  (encrypted, if expiresAt session - now \<le> 0 then Second
                              else min (expiresAt session - now) maxDuration)))
                (redisKey s (name session) (id_s session) := None)"
proof (cases "32 \<le> length (entropy w)")
  case False
  then show ?thesis
    using ok by (simp add: RedisStore_RotateID_def GenerateSessionID_short Let_def)
next
  case True
  let ?newID = "base64_RawURLEncode X (take 32 (entropy w))"
  let ?s1 = "session\<lparr>id_s := ?newID\<rparr>"
  let ?ttl = "if expiresAt session - now \<le> 0 then Second else min (expiresAt session - now) maxDuration"
  let ?cmds = "[CmdSet (redisKey s (name session) ?newID) encrypted ?ttl,
                CmdDel (redisKey s (name session) (id_s session))]"
  obtain res ent2 where en: "EncryptAndSign X (crypto s) ?s1 (name session) (drop 32 (entropy w)) = (res, ent2)"
    by (cases "EncryptAndSign X (crypto s) ?s1 (name session) (drop 32 (entropy w))") blast
  show ?thesis
  proof (cases res)
    case (Inl err)
    then show ?thesis
      using ok en by (simp add: RotateID_after_id [OF True] Let_def)
  next
    case (Inr encrypted)
    obtain r2 w2 where px: "pipe_Exec [CmdSet (redisKey s (name session) ?newID) encrypted ?ttl,
                CmdDel (redisKey s (name session) (id_s session))] (w\<lparr>entropy := ent2\<rparr>) = (r2, w2)"
      by (cases "pipe_Exec [CmdSet (redisKey s (name session) ?newID) encrypted ?ttl,
                CmdDel (redisKey s (name session) (id_s session))] (w\<lparr>entropy := ent2\<rparr>)") blast
    show ?thesis
    proof (cases r2)
      case (Inl err)
      then show ?thesis
        using ok en Inr px by (simp add: RotateID_after_id [OF True] Let_def rotate_ttl)
    next
      case (Inr u)
      have k: "kv w2 = ((kv w)(redisKey s (name session) ?newID \<mapsto> (encrypted, ?ttl)))
                (redisKey s (name session) (id_s session) := None)"
        using pipe_Exec_done [OF px [unfolded Inr]] by simp
      have r: "RedisStore_RotateID X s now session w =
          (Inr (), ?s1, SetCookie (NewCookie (options s) ?s1) w2)"
        using en \<open>res = Inr encrypted\<close> px Inr
        by (simp add: RotateID_after_id [OF True] Let_def rotate_ttl)
      show ?thesis
        using r k en \<open>res = Inr encrypted\<close> GenerateSessionID_enough [OF True, of X]
        by (simp add: SetCookie_def)
    qed
  qed
qed

theorem RotateID_entry_witness:
  "fst (RedisStore_RotateID demo_extern demo_store 50 demo_session stale_world) = Inr () \<and>
   (\<exists>newID ent1 encrypted ent2 session' w'.
      RedisStore_RotateID demo_extern demo_store 50 demo_session stale_world = (Inr (), session', w') \<and>
      GenerateSessionID demo_extern (entropy stale_world) = (Inr newID, ent1) \<and>
      session' = demo_session\<lparr>id_s := newID\<rparr> \<and>
      EncryptAndSign demo_extern (crypto demo_store) session' (name demo_session) ent1 =
        (Inr encrypted, ent2) \<and>
      kv w' = ((kv stale_world)(redisKey demo_store (name demo_session) newID \<mapsto>
                  (encrypted, if expiresAt demo_session - 50 \<le> 0 then Second
                              else min (expiresAt demo_session - 50) maxDuration)))
                (redisKey demo_store (name demo_session) (id_s demo_session) := None))"
  using demo_rotate_ok RotateID_entry [OF demo_rotate_ok] by blast

text \<open>
  Claim C9 as stated fails for a session that has expired: the entry it replaces was
  stored with its own payload and expiry, \<open>expiresAt - now\<close> is negative, and the new
  entry has another payload and lives one second.
\<close>

theorem RotateID_ttl_counterexample:
  "fst (RedisStore_RotateID demo_extern demo_store 6000 demo_session stale_world) = Inr () \<and>
   kv stale_world ''test:app:sid0'' = Some (''=keyxy{sid0}a00000000000000000000xy{sid0}a'', 4900) \<and>
   kv (snd (snd (RedisStore_RotateID demo_extern demo_store 6000 demo_session stale_world)))
      ''test:app:abcdefghijklmnopqrstuvwxyzABCDEF'' =
     Some (''=keyGH{abcdefghijklmnopqrstuvwxyzGH{abcdefghijklmnopqrstuvwxyzABCDEF}a'', 1000000000) \<and>
   expiresAt demo_session - 6000 = - 1000"
  by (simp add: stale_world_def demo_defs store_defs cipher_defs)

end
